theory Spec2Isabelle
  imports Complex_Main
begin

section \<open>The adapter's entry point: cmd/adapter/main.go\<close>

text \<open>
  The repository's \<^verbatim>\<open>main\<close> parses the flags, builds the store client, applies the index
  template, constructs the index, read and write services and serves the write and read
  endpoints on \<^verbatim>\<open>:8000\<close>. It is modelled as a function from the parsed flags and the
  outcomes of the calls it makes (the environment) to the run it produces: the sequence of
  calls and log lines in program order, and how the process ends.
\<close>

subsection \<open>Flags and configuration structs\<close>

text \<open>A Go \<^verbatim>\<open>error\<close> value, by its message; \<^verbatim>\<open>nil\<close> is \<open>None\<close> of \<open>error option\<close>.\<close>

type_synonym error = string

text \<open>
  The \<^verbatim>\<open>var (...)\<close> block of \<^verbatim>\<open>main\<close>, one field per flag, under the name of the Go
  variable. The integers are only handed on, never computed with, so they are \<open>int\<close>.
\<close>

record Flags =
  url :: string
  workers :: int
  batchMaxAge :: int
  batchMaxDocs :: int
  batchMaxSize :: int
  indexAlias :: string
  indexDaily :: bool
  indexShards :: int
  indexReplicas :: int
  indexMaxAge :: string
  indexMaxDocs :: int
  indexMaxSize :: string
  searchMaxDocs :: int
  sniffEnabled :: bool
  statsEnabled :: bool
  debug :: bool

text \<open>The default of every flag, as declared in the \<^verbatim>\<open>flag.String/Int/Bool\<close> calls.\<close>

definition default_flags :: Flags where
  "default_flags = \<lparr>
     url = ''http://localhost:9200'',
     workers = 1,
     batchMaxAge = 10,
     batchMaxDocs = 1000,
     batchMaxSize = 4096,
     indexAlias = ''prom-metrics'',
     indexDaily = False,
     indexShards = 5,
     indexReplicas = 1,
     indexMaxAge = ''7d'',
     indexMaxDocs = 1000000,
     indexMaxSize = '''',
     searchMaxDocs = 1000,
     sniffEnabled = False,
     statsEnabled = True,
     debug = False \<rparr>"

text \<open>\<^verbatim>\<open>*http.Client\<close>, by a handle; \<^verbatim>\<open>nil\<close> is \<open>None\<close> of \<open>http_client option\<close>.\<close>

datatype http_client = HttpClient nat

text \<open>The four options \<^verbatim>\<open>main\<close> gives to \<^verbatim>\<open>elastic.NewClient\<close>.\<close>

record ClientOptions =
  SetURL :: string
  SetScheme :: string
  SetHttpClient :: "http_client option"
  SetSniff :: bool

record IndexTemplateConfig =
  Alias :: string
  Shards :: int
  Replicas :: int

record IndexConfig =
  Alias :: string
  MaxAge :: string
  MaxDocs :: int
  MaxSize :: string

record ReadConfig =
  Alias :: string
  MaxDocs :: int

record WriteConfig =
  Alias :: string
  Daily :: bool
  MaxAge :: int
  MaxDocs :: int
  MaxSize :: int
  Workers :: int
  Stats :: bool

subsection \<open>Samples and the write pipeline\<close>

text \<open>
  A sample as the spec's data model has it: metric name, label set (keys unique), timestamp
  in milliseconds, value. The value is only carried, never computed with.
\<close>

record Sample =
  metric :: string
  labels :: "string \<rightharpoonup> string"
  timestamp :: int
  val :: real

type_synonym batch = "Sample list"

text \<open>
  The write pipeline behind the write service: whether the accumulator accepts samples, its
  current partial batch, the worker pool's intake queue, and the batches written and
  reported as lost so far.
\<close>

record pipeline =
  accepting :: bool
  current :: batch
  intake :: "batch list"
  written :: "batch list"
  lost :: "batch list"

text \<open>The batches still to be written: the intake queue, then the partial batch if it holds
  a sample.\<close>

definition pending :: "pipeline \<Rightarrow> batch list" where
  "pending p = intake p @ (if current p = [] then [] else [current p])"

text \<open>Modelled from the spec: \<^verbatim>\<open>WriteService.Close\<close> of pkg/elasticsearch, which is not among the
  sources. Section 5: on shutdown the accumulator stops accepting new samples, flushes its
  current partial batch as a final best-effort write, and the worker pool drains its intake
  queue; a hard timeout bounds the drain, after which any undrained batch is reported as
  lost. \<open>bulk\<close> tells whether the store takes a batch, \<open>budget\<close> is the number of batches
  the workers get to before the timeout.
\<close>

definition Close :: "(batch \<Rightarrow> bool) \<Rightarrow> nat \<Rightarrow> pipeline \<Rightarrow> pipeline" where
  "Close bulk budget p =
     (let attempted = take budget (pending p);
          undrained = drop budget (pending p)
      in p\<lparr> accepting := False,
            current := [],
            intake := [],
            written := written p @ filter bulk attempted,
            lost := lost p @ filter (\<lambda>b. \<not> bulk b) attempted @ undrained \<rparr>)"

subsection \<open>Events, environment and runs\<close>

text \<open>What a run of \<^verbatim>\<open>main\<close> does that can be seen from outside, in program order.\<close>

datatype event =
    LogInfo string
  | LogFatal string "error option"
  | CallSigningClientNew string string
  | CallNewClient ClientOptions
  | CallEnsureIndexTemplate IndexTemplateConfig
  | CallNewIndexService IndexConfig
  | CallNewReadService ReadConfig
  | CallNewWriteService WriteConfig
  | GoAdminListenAndServe string
  | GracefulListenAndServe string
  | WriteSvcClose
  | ClientStop

text \<open>
  How \<^verbatim>\<open>graceful.ListenAndServe\<close> ends: it returns to \<^verbatim>\<open>main\<close> once the server has been
  shut down gracefully, or the process ends inside it.
\<close>

datatype serve_outcome = ServerClosed | ProcessEnded

text \<open>
  Everything \<^verbatim>\<open>main\<close> reads or calls and does not define: the build variables, the
  environment variable, the results of the constructors of the libraries and of
  pkg/elasticsearch (each a function of the arguments given), how serving ends, and the state
  of the write pipeline at that moment together with what the store does during the drain.
\<close>

record Env =
  Commit :: string
  Build :: string
  AWS_REGION :: string
  aws_signing_client_New :: "string \<Rightarrow> string \<Rightarrow> http_client option \<times> error option"
  elastic_NewClient :: "ClientOptions \<Rightarrow> error option"
  ensureIndexTemplate_result :: "IndexTemplateConfig \<Rightarrow> error option"
  newIndexService_result :: "IndexConfig \<Rightarrow> error option"
  newWriteService_result :: "WriteConfig \<Rightarrow> error option"
  serve :: serve_outcome
  pipeline_at_shutdown :: pipeline
  bulk_ok :: "batch \<Rightarrow> bool"
  drain_budget :: nat

text \<open>How the process ends: \<^verbatim>\<open>main\<close> returns (its deferred calls run), or the process exits
  without returning from \<^verbatim>\<open>main\<close> (as after \<^verbatim>\<open>os.Exit\<close>).\<close>

datatype exit_status = Returned | Exited

text \<open>A run: what happened, how the process ended, and the write pipeline as
  \<^verbatim>\<open>writeSvc.Close\<close> left it, if it ran.\<close>

record Run =
  trace :: "event list"
  exit :: exit_status
  final_pipeline :: "pipeline option"

text \<open>Modelled from the spec: \<^verbatim>\<open>log.Fatal\<close>, a method of the logger of pkg/logger, which is not
  among the sources. Section 7: fatal-startup errors abort the process. The line is logged and
  the process exits with status 1; deferred calls do not run.
\<close>

definition fatal :: "event list \<Rightarrow> string \<Rightarrow> error option \<Rightarrow> Run" where
  "fatal t msg err = \<lparr> trace = t @ [LogFatal msg err], exit = Exited, final_pipeline = None \<rparr>"

text \<open>The configuration values \<^verbatim>\<open>main\<close> builds from the flags, each as written at its
  call: the options of \<^verbatim>\<open>elastic.NewClient\<close> (lines 66 to 71), the template configuration
  (lines 77 to 81), the index configuration (lines 87 to 92), \<^verbatim>\<open>readCfg\<close> (lines 98 to 101)
  and \<^verbatim>\<open>writeCfg\<close> (lines 104 to 112).\<close>

definition clientOpts :: "Flags \<Rightarrow> http_client option \<Rightarrow> ClientOptions" where
  "clientOpts f awsClient =
     \<lparr> SetURL = url f,
       SetScheme = ''https'',
       SetHttpClient = awsClient,
       SetSniff = sniffEnabled f \<rparr>"

definition templateCfg :: "Flags \<Rightarrow> IndexTemplateConfig" where
  "templateCfg f =
     \<lparr> IndexTemplateConfig.Alias = indexAlias f,
       Shards = indexShards f,
       Replicas = indexReplicas f \<rparr>"

definition indexCfg :: "Flags \<Rightarrow> IndexConfig" where
  "indexCfg f =
     \<lparr> IndexConfig.Alias = indexAlias f,
       IndexConfig.MaxAge = indexMaxAge f,
       IndexConfig.MaxDocs = indexMaxDocs f,
       IndexConfig.MaxSize = indexMaxSize f \<rparr>"

definition readCfg :: "Flags \<Rightarrow> ReadConfig" where
  "readCfg f =
     \<lparr> ReadConfig.Alias = indexAlias f,
       ReadConfig.MaxDocs = searchMaxDocs f \<rparr>"

definition writeCfg :: "Flags \<Rightarrow> WriteConfig" where
  "writeCfg f =
     \<lparr> WriteConfig.Alias = indexAlias f,
       Daily = indexDaily f,
       WriteConfig.MaxAge = batchMaxAge f,
       WriteConfig.MaxDocs = batchMaxDocs f,
       WriteConfig.MaxSize = batchMaxSize f,
       Workers = workers f,
       Stats = statsEnabled f \<rparr>"

text \<open>Lines 86 to 96: the index service is created unless daily indexes are configured.
  The result is the call made, if any, and the value of \<^verbatim>\<open>err\<close> afterwards.\<close>

definition index_stage :: "Flags \<Rightarrow> Env \<Rightarrow> event list \<times> error option" where
  "index_stage f env =
     (if \<not> indexDaily f
      then ([CallNewIndexService (indexCfg f)], newIndexService_result env (indexCfg f))
      else ([], None))"

text \<open>Lines 119 to 131: the admin listener, the server on \<^verbatim>\<open>:8000\<close>, and, when
  \<^verbatim>\<open>graceful.ListenAndServe\<close> returns, the deferred calls, last deferred first:
  \<^verbatim>\<open>writeSvc.Close()\<close>, then \<^verbatim>\<open>client.Stop()\<close>.\<close>

definition serve_stage :: "Env \<Rightarrow> event list \<Rightarrow> Run" where
  "serve_stage env t =
     (let t' = t @ [GoAdminListenAndServe '':9000'', GracefulListenAndServe '':8000'']
      in (case serve env of
            ProcessEnded \<Rightarrow> \<lparr> trace = t', exit = Exited, final_pipeline = None \<rparr>
          | ServerClosed \<Rightarrow>
              \<lparr> trace = t' @ [WriteSvcClose, ClientStop],
                exit = Returned,
                final_pipeline =
                  Some (Close (bulk_ok env) (drain_budget env) (pipeline_at_shutdown env)) \<rparr>))"

text \<open>Lines 77 to 117, once the store client exists: the template, the index service, the
  read and the write service. Each \<^verbatim>\<open>if err != nil { log.Fatal(...) }\<close> ends the run.\<close>

definition services_stage :: "Flags \<Rightarrow> Env \<Rightarrow> event list \<Rightarrow> Run" where
  "services_stage f env t1 =
     (let t2 = t1 @ [CallEnsureIndexTemplate (templateCfg f)] in
      (case ensureIndexTemplate_result env (templateCfg f) of
         Some e \<Rightarrow> fatal t2 ''Failed to create index template'' (Some e)
       | None \<Rightarrow>
          (let t3 = t2 @ fst (index_stage f env) in
           (case snd (index_stage f env) of
              Some e \<Rightarrow> fatal t3 ''Failed to create indexer'' (Some e)
            | None \<Rightarrow>
               (let t4 = t3 @ [CallNewReadService (readCfg f), CallNewWriteService (writeCfg f)] in
                (case newWriteService_result env (writeCfg f) of
                   Some e \<Rightarrow> fatal t4 ''Unable to create elasticsearch adapter:'' (Some e)
                 | None \<Rightarrow> serve_stage env t4))))))"

text \<open>Lines 50 to 75: the start-up log line, the URL check, the signing client, whose error
  is assigned to \<^verbatim>\<open>err\<close> and overwritten by the next assignment, and the store client.
  The logger, the context, the credentials and the signer are built without a result that
  \<^verbatim>\<open>main\<close> looks at, and leave no event. \<^verbatim>\<open>client.Stop()\<close> and \<^verbatim>\<open>writeSvc.Close()\<close> are
  deferred: they run when \<^verbatim>\<open>main\<close> returns, and not when the process exits before.\<close>

definition main :: "Flags \<Rightarrow> Env \<Rightarrow> Run" where
  "main f env =
     (let t0 = [LogInfo (''Starting commit: '' @ Commit env @ '', build: '' @ Build env)] in
      if url f = '''' then fatal t0 ''missing url'' None
      else
        (let awsClient = fst (aws_signing_client_New env ''es'' (AWS_REGION env));
             opts = clientOpts f awsClient;
             t1 = t0 @ [CallSigningClientNew ''es'' (AWS_REGION env), CallNewClient opts]
         in (case elastic_NewClient env opts of
               Some e \<Rightarrow> fatal t1 ''Failed to create elastic client'' (Some e)
             | None \<Rightarrow> services_stage f env t1)))"

subsection \<open>Projections of a run\<close>

text \<open>The arguments of the calls of each kind in a trace, in order.\<close>

fun client_calls :: "event list \<Rightarrow> ClientOptions list" where
  "client_calls [] = []"
| "client_calls (CallNewClient opts # t) = opts # client_calls t"
| "client_calls (_ # t) = client_calls t"

fun template_calls :: "event list \<Rightarrow> IndexTemplateConfig list" where
  "template_calls [] = []"
| "template_calls (CallEnsureIndexTemplate c # t) = c # template_calls t"
| "template_calls (_ # t) = template_calls t"

fun index_calls :: "event list \<Rightarrow> IndexConfig list" where
  "index_calls [] = []"
| "index_calls (CallNewIndexService c # t) = c # index_calls t"
| "index_calls (_ # t) = index_calls t"

fun read_calls :: "event list \<Rightarrow> ReadConfig list" where
  "read_calls [] = []"
| "read_calls (CallNewReadService c # t) = c # read_calls t"
| "read_calls (_ # t) = read_calls t"

fun write_calls :: "event list \<Rightarrow> WriteConfig list" where
  "write_calls [] = []"
| "write_calls (CallNewWriteService c # t) = c # write_calls t"
| "write_calls (_ # t) = write_calls t"



fun is_fatal :: "event \<Rightarrow> bool" where
  "is_fatal (LogFatal _ _) = True"
| "is_fatal _ = False"

text \<open>The calls that construct or configure a component.\<close>

fun is_construction :: "event \<Rightarrow> bool" where
  "is_construction (CallNewClient _) = True"
| "is_construction (CallEnsureIndexTemplate _) = True"
| "is_construction (CallNewIndexService _) = True"
| "is_construction (CallNewReadService _) = True"
| "is_construction (CallNewWriteService _) = True"
| "is_construction _ = False"

text \<open>The signing client \<^verbatim>\<open>main\<close> holds after line 64.\<close>

definition awsClient :: "Env \<Rightarrow> http_client option" where
  "awsClient env = fst (aws_signing_client_New env ''es'' (AWS_REGION env))"

text \<open>The run gets as far as the index stage: the URL is given, the store client was
  created and the template applied.\<close>

definition reaches_index_stage :: "Flags \<Rightarrow> Env \<Rightarrow> bool" where
  "reaches_index_stage f env \<longleftrightarrow>
     url f \<noteq> '''' \<and>
     elastic_NewClient env (clientOpts f (awsClient env)) = None \<and>
     ensureIndexTemplate_result env (templateCfg f) = None"

text \<open>Every call of the start-up returns without error.\<close>

definition startup_ok :: "Flags \<Rightarrow> Env \<Rightarrow> bool" where
  "startup_ok f env \<longleftrightarrow>
     reaches_index_stage f env \<and>
     (\<not> indexDaily f \<longrightarrow> newIndexService_result env (indexCfg f) = None) \<and>
     newWriteService_result env (writeCfg f) = None"


section \<open>The read path\<close>

text \<open>A read request: a time range and a set of label matchers, each a test on a label set.\<close>

record Query =
  start_ms :: int
  end_ms :: int
  matchers :: "((string \<rightharpoonup> string) \<Rightarrow> bool) list"

definition matches :: "Query \<Rightarrow> Sample \<Rightarrow> bool" where
  "matches q s \<longleftrightarrow>
     start_ms q \<le> timestamp s \<and> timestamp s \<le> end_ms q \<and> list_all (\<lambda>m. m (labels s)) (matchers q)"

text \<open>The query sent to the store: the index name it addresses, the cap on the number of
  documents returned, and the selection.\<close>

record StoreQuery =
  sq_index :: string
  sq_size :: int
  sq_select :: Query

text \<open>Modelled from the spec: the read service of pkg/elasticsearch (\<^verbatim>\<open>NewReadService\<close> and its
  query method), which is not among the sources. Section 4.4: it accepts a time range and a
  set of label matchers and produces a store query scoped to the alias, bounded by the
  configured maximum result-document count; the cap is enforced by the store, not by
  truncation in the client. The store is given by the documents each name resolves to.
\<close>

definition translate :: "ReadConfig \<Rightarrow> Query \<Rightarrow> StoreQuery" where
  "translate rc q =
     \<lparr> sq_index = ReadConfig.Alias rc, sq_size = ReadConfig.MaxDocs rc, sq_select = q \<rparr>"

definition store_search :: "(string \<Rightarrow> Sample list) \<Rightarrow> StoreQuery \<Rightarrow> Sample list" where
  "store_search store sq =
     take (nat (sq_size sq)) (filter (matches (sq_select sq)) (store (sq_index sq)))"

definition Read :: "ReadConfig \<Rightarrow> (string \<Rightarrow> Sample list) \<Rightarrow> Query \<Rightarrow> Sample list" where
  "Read rc store q = store_search store (translate rc q)"

section \<open>The index template\<close>

text \<open>The settings of a template, and the store's templates, one per alias; the store may be
  out of reach.\<close>

record IndexTemplate =
  number_of_shards :: int
  number_of_replicas :: int

record TemplateStore =
  reachable :: bool
  templates :: "string \<rightharpoonup> IndexTemplate"

text \<open>Modelled from the spec: \<^verbatim>\<open>EnsureIndexTemplate\<close> of pkg/elasticsearch, which is not among
  the sources. Section 3: the template carries the shard count and the replica count and
  applies to any index matching the alias's naming pattern. Sections 5 and 6: it is applied
  through the store's index-template-apply primitive, which fails when the store does not
  answer. The result is the error returned and the store afterwards.
\<close>

definition EnsureIndexTemplate ::
    "IndexTemplateConfig \<Rightarrow> TemplateStore \<Rightarrow> error option \<times> TemplateStore" where
  "EnsureIndexTemplate c s =
     (if \<not> reachable s then (Some ''store unavailable'', s)
      else (None,
            s\<lparr> templates := (templates s)(IndexTemplateConfig.Alias c \<mapsto>
                  \<lparr> number_of_shards = Shards c, number_of_replicas = Replicas c \<rparr>) \<rparr>))"

text \<open>Applying the template \<open>n\<close> times in a row: the errors returned, in order, and the
  store at the end.\<close>

fun reapply :: "nat \<Rightarrow> IndexTemplateConfig \<Rightarrow> TemplateStore \<Rightarrow> error option list \<times> TemplateStore" where
  "reapply 0 c s = ([], s)"
| "reapply (Suc n) c s =
     (let (e, s') = EnsureIndexTemplate c s;
          (es, s'') = reapply n c s'
      in (e # es, s''))"

section \<open>Writers and the lifecycle manager\<close>










section \<open>The store client's requests\<close>


section \<open>Concrete runs\<close>

text \<open>An environment in which every call succeeds and the server is shut down gracefully
  with one batch queued and two samples in the partial batch.\<close>

definition sample1 :: Sample where
  "sample1 = \<lparr> metric = ''up'', labels = [''job'' \<mapsto> ''api''], timestamp = 1000, val = 1 \<rparr>"

definition sample2 :: Sample where
  "sample2 = \<lparr> metric = ''up'', labels = [''job'' \<mapsto> ''db''], timestamp = 2000, val = 0 \<rparr>"

definition sample3 :: Sample where
  "sample3 = \<lparr> metric = ''up'', labels = [''job'' \<mapsto> ''api''], timestamp = 3000, val = 1 \<rparr>"

definition batch1 :: batch where
  "batch1 = [sample1]"

definition batch2 :: batch where
  "batch2 = [sample2, sample3]"

definition pipeline0 :: pipeline where
  "pipeline0 = \<lparr> accepting = True, current = batch2, intake = [batch1],
                 written = [], lost = [] \<rparr>"

definition env_ok :: Env where
  "env_ok = \<lparr>
     Commit = ''abc'',
     Build = ''1'',
     AWS_REGION = ''eu-west-1'',
     aws_signing_client_New = (\<lambda>service region. (Some (HttpClient 0), None)),
     elastic_NewClient = (\<lambda>opts. None),
     ensureIndexTemplate_result = (\<lambda>c. None),
     newIndexService_result = (\<lambda>c. None),
     newWriteService_result = (\<lambda>c. None),
     serve = ServerClosed,
     pipeline_at_shutdown = pipeline0,
     bulk_ok = (\<lambda>b. True),
     drain_budget = 8 \<rparr>"

text \<open>The same with the store refusing the template, and with no region configured, so
  that the signing client is not created.\<close>

definition env_template_fails :: Env where
  "env_template_fails = env_ok\<lparr> ensureIndexTemplate_result := (\<lambda>c. Some ''timeout'') \<rparr>"

definition env_no_region :: Env where
  "env_no_region = env_ok\<lparr> AWS_REGION := '''',
     aws_signing_client_New := (\<lambda>service region. (None, Some ''missing region'')) \<rparr>"

definition daily_flags :: Flags where
  "daily_flags = default_flags\<lparr> indexDaily := True \<rparr>"

definition no_url_flags :: Flags where
  "no_url_flags = default_flags\<lparr> url := '''' \<rparr>"

definition small_cap_flags :: Flags where
  "small_cap_flags = default_flags\<lparr> searchMaxDocs := 2 \<rparr>"

text \<open>A store whose alias \<^verbatim>\<open>prom-metrics\<close> resolves to three samples, and a query that
  selects all three.\<close>

definition store0 :: "string \<Rightarrow> Sample list" where
  "store0 name = (if name = ''prom-metrics'' then [sample1, sample2, sample3] else [])"

definition query0 :: Query where
  "query0 = \<lparr> start_ms = 0, end_ms = 5000, matchers = [\<lambda>l. l ''job'' \<noteq> None] \<rparr>"

definition tstore0 :: TemplateStore where
  "tstore0 = \<lparr> reachable = True, templates = Map.empty \<rparr>"

definition tstore1 :: TemplateStore where
  "tstore1 = \<lparr> reachable = True,
                templates = [''prom-metrics'' \<mapsto> \<lparr> number_of_shards = 5, number_of_replicas = 1 \<rparr>] \<rparr>"








section \<open>Facts about every run\<close>

lemmas cfg_defs = clientOpts_def templateCfg_def indexCfg_def readCfg_def writeCfg_def

lemmas stage_defs =
  main_def services_stage_def serve_stage_def index_stage_def fatal_def awsClient_def

lemmas input_defs =
  default_flags_def daily_flags_def no_url_flags_def small_cap_flags_def
  env_ok_def env_template_fails_def env_no_region_def

lemma listen_iff_startup_ok:
  "GracefulListenAndServe '':8000'' \<in> set (trace (main f env)) \<longleftrightarrow> startup_ok f env"
  by (auto simp: stage_defs startup_ok_def reaches_index_stage_def Let_def
      split: option.splits serve_outcome.splits if_splits)

lemma startup_failure_exits:
  "\<not> startup_ok f env \<Longrightarrow> exit (main f env) = Exited \<and> is_fatal (last (trace (main f env)))"
  by (auto simp: stage_defs startup_ok_def reaches_index_stage_def Let_def
      split: option.splits serve_outcome.splits if_splits)

text \<open>The whole trace of a run in which every call of the start-up succeeds.\<close>

lemma main_trace_ok:
  "startup_ok f env \<Longrightarrow> trace (main f env) =
     [LogInfo (''Starting commit: '' @ Commit env @ '', build: '' @ Build env),
      CallSigningClientNew ''es'' (AWS_REGION env),
      CallNewClient (clientOpts f (awsClient env)),
      CallEnsureIndexTemplate (templateCfg f)] @
     (if indexDaily f then [] else [CallNewIndexService (indexCfg f)]) @
     [CallNewReadService (readCfg f), CallNewWriteService (writeCfg f),
      GoAdminListenAndServe '':9000'', GracefulListenAndServe '':8000''] @
     (case serve env of ServerClosed \<Rightarrow> [WriteSvcClose, ClientStop] | ProcessEnded \<Rightarrow> [])"
  by (auto simp: stage_defs startup_ok_def reaches_index_stage_def Let_def
      split: option.splits serve_outcome.splits)

lemma startup_ok_default: "startup_ok default_flags env_ok"
  by (simp add: startup_ok_def reaches_index_stage_def input_defs cfg_defs)

lemma index_calls_main:
  "index_calls (trace (main f env)) =
     (if reaches_index_stage f env \<and> \<not> indexDaily f then [indexCfg f] else [])"
  by (auto simp: stage_defs reaches_index_stage_def Let_def
      split: option.splits serve_outcome.splits)

lemma write_calls_main:
  "write_calls (trace (main f env)) =
     (if reaches_index_stage f env \<and>
         (\<not> indexDaily f \<longrightarrow> newIndexService_result env (indexCfg f) = None)
      then [writeCfg f] else [])"
  by (auto simp: stage_defs reaches_index_stage_def Let_def
      split: option.splits serve_outcome.splits if_splits)

lemma read_calls_main:
  "read_calls (trace (main f env)) =
     (if reaches_index_stage f env \<and>
         (\<not> indexDaily f \<longrightarrow> newIndexService_result env (indexCfg f) = None)
      then [readCfg f] else [])"
  by (auto simp: stage_defs reaches_index_stage_def Let_def
      split: option.splits serve_outcome.splits if_splits)

lemma client_calls_main:
  "client_calls (trace (main f env)) =
     (if url f = '''' then [] else [clientOpts f (awsClient env)])"
  by (auto simp: stage_defs Let_def split: option.splits serve_outcome.splits if_splits)



lemma signing_error_unused:
  "main f (env\<lparr> aws_signing_client_New := (\<lambda>service region. (c, Some e)) \<rparr>) =
   main f (env\<lparr> aws_signing_client_New := (\<lambda>service region. (c, None)) \<rparr>)"
  by (simp add: stage_defs Let_def split: option.splits serve_outcome.splits)


section \<open>Facts about the pipeline, the read path and the template\<close>





lemma read_cap:
  "0 \<le> ReadConfig.MaxDocs rc \<Longrightarrow>
   ReadConfig.MaxDocs rc < int (length (filter (matches q) (store (ReadConfig.Alias rc)))) \<Longrightarrow>
   int (length (Read rc store q)) = ReadConfig.MaxDocs rc"
  by (auto simp: Read_def store_search_def translate_def min_def)

lemma read_at_most:
  "int (length (Read rc store q)) \<le> max 0 (ReadConfig.MaxDocs rc)"
  by (auto simp: Read_def store_search_def translate_def min_def)

text \<open>Applying the template does not change whether the store is in reach, and a store
  that holds the template already is left as it is.\<close>

lemma EnsureIndexTemplate_again:
  "fst (EnsureIndexTemplate c s) = None \<Longrightarrow>
     EnsureIndexTemplate c (snd (EnsureIndexTemplate c s)) = (None, snd (EnsureIndexTemplate c s))"
  by (auto simp: EnsureIndexTemplate_def split: if_splits)

section \<open>The claims\<close>

text \<open>
  C1. The write endpoint on \<^verbatim>\<open>:8000\<close> is started only if \<^verbatim>\<open>EnsureIndexTemplate\<close>,
  \<^verbatim>\<open>NewIndexService\<close> (when not in daily mode) and \<^verbatim>\<open>NewWriteService\<close> all returned without
  error; when one of them fails, the process exits through \<^verbatim>\<open>log.Fatal\<close>, the fatal line
  being the last thing it does, and the endpoint is never started.
\<close>

theorem write_endpoint_only_after_startup:
  "(GracefulListenAndServe '':8000'' \<in> set (trace (main f env)) \<longrightarrow>
      ensureIndexTemplate_result env (templateCfg f) = None \<and>
      (\<not> indexDaily f \<longrightarrow> newIndexService_result env (indexCfg f) = None) \<and>
      newWriteService_result env (writeCfg f) = None) \<and>
   (ensureIndexTemplate_result env (templateCfg f) \<noteq> None \<or>
    (\<not> indexDaily f \<and> newIndexService_result env (indexCfg f) \<noteq> None) \<or>
    newWriteService_result env (writeCfg f) \<noteq> None \<longrightarrow>
      exit (main f env) = Exited \<and> is_fatal (last (trace (main f env))) \<and>
      GracefulListenAndServe '':8000'' \<notin> set (trace (main f env)))"
  using listen_iff_startup_ok [of f env] startup_failure_exits [of f env]
  by (auto simp: startup_ok_def reaches_index_stage_def)

text \<open>With the defaults and a store that answers, the endpoint is started; when the store
  refuses the template, the process exits and the endpoint is not started.\<close>

theorem write_endpoint_only_after_startup_witness:
  "GracefulListenAndServe '':8000'' \<in> set (trace (main default_flags env_ok)) \<and>
   ensureIndexTemplate_result env_ok (templateCfg default_flags) = None \<and>
   newWriteService_result env_ok (writeCfg default_flags) = None \<and>
   ensureIndexTemplate_result env_template_fails (templateCfg default_flags) \<noteq> None \<and>
   exit (main default_flags env_template_fails) = Exited \<and>
   GracefulListenAndServe '':8000'' \<notin> set (trace (main default_flags env_template_fails))"
proof -
  have started: "GracefulListenAndServe '':8000'' \<in> set (trace (main default_flags env_ok))"
    using startup_ok_default by (simp add: listen_iff_startup_ok)
  have refused:
    "ensureIndexTemplate_result env_template_fails (templateCfg default_flags) \<noteq> None"
    by (simp add: env_template_fails_def env_ok_def)
  from write_endpoint_only_after_startup [of default_flags env_ok] started
  have a: "ensureIndexTemplate_result env_ok (templateCfg default_flags) = None \<and>
      newWriteService_result env_ok (writeCfg default_flags) = None"
    by blast
  from write_endpoint_only_after_startup [of default_flags env_template_fails] refused
  have b: "exit (main default_flags env_template_fails) = Exited \<and>
      GracefulListenAndServe '':8000'' \<notin> set (trace (main default_flags env_template_fails))"
    by blast
  from started refused a b show ?thesis by blast
qed

text \<open>
  C2, as stated, fails: with \<^verbatim>\<open>es_url\<close> empty and \<^verbatim>\<open>es_index_daily\<close> false the process exits
  at the URL check and \<^verbatim>\<open>NewIndexService\<close> is never called, although the flag is false.
\<close>

theorem index_service_iff_not_daily_counterexample:
  "\<not> (index_calls (trace (main no_url_flags env_ok)) \<noteq> [] \<longleftrightarrow> \<not> indexDaily no_url_flags)"
  by (simp add: index_calls_main reaches_index_stage_def no_url_flags_def default_flags_def)

text \<open>
  C2, amended. In a run that gets past the URL check, the creation of the store client and
  the template, \<^verbatim>\<open>NewIndexService\<close> is called, once and with the alias and the rollover policy
  of the flags, if and only if \<^verbatim>\<open>es_index_daily\<close> is false; in every other run it is not
  called. In a run that also gets past the index stage, \<^verbatim>\<open>NewWriteService\<close> is called, once,
  with \<^verbatim>\<open>Daily\<close> equal to the flag: in daily mode no index service is started and the write
  service is told \<^verbatim>\<open>Daily = true\<close> instead.
\<close>

theorem index_service_unless_daily:
  "index_calls (trace (main f env)) =
     (if reaches_index_stage f env \<and> \<not> indexDaily f
      then [\<lparr> IndexConfig.Alias = indexAlias f,
              IndexConfig.MaxAge = indexMaxAge f,
              IndexConfig.MaxDocs = indexMaxDocs f,
              IndexConfig.MaxSize = indexMaxSize f \<rparr>]
      else []) \<and>
   write_calls (trace (main f env)) =
     (if reaches_index_stage f env \<and>
         (\<not> indexDaily f \<longrightarrow> newIndexService_result env (indexCfg f) = None)
      then [\<lparr> WriteConfig.Alias = indexAlias f,
              Daily = indexDaily f,
              WriteConfig.MaxAge = batchMaxAge f,
              WriteConfig.MaxDocs = batchMaxDocs f,
              WriteConfig.MaxSize = batchMaxSize f,
              Workers = workers f,
              Stats = statsEnabled f \<rparr>]
      else [])"
proof -
  have index: "index_calls (trace (main f env)) =
     (if reaches_index_stage f env \<and> \<not> indexDaily f
      then [\<lparr> IndexConfig.Alias = indexAlias f,
              IndexConfig.MaxAge = indexMaxAge f,
              IndexConfig.MaxDocs = indexMaxDocs f,
              IndexConfig.MaxSize = indexMaxSize f \<rparr>]
      else [])"
    using index_calls_main [of f env] by (simp only: indexCfg_def)
  have "write_calls (trace (main f env)) =
     (if reaches_index_stage f env \<and>
         (\<not> indexDaily f \<longrightarrow> newIndexService_result env (indexCfg f) = None)
      then [writeCfg f] else [])"
    by (rule write_calls_main)
  then have writes: "write_calls (trace (main f env)) =
     (if reaches_index_stage f env \<and>
         (\<not> indexDaily f \<longrightarrow> newIndexService_result env (indexCfg f) = None)
      then [\<lparr> WriteConfig.Alias = indexAlias f,
              Daily = indexDaily f,
              WriteConfig.MaxAge = batchMaxAge f,
              WriteConfig.MaxDocs = batchMaxDocs f,
              WriteConfig.MaxSize = batchMaxSize f,
              Workers = workers f,
              Stats = statsEnabled f \<rparr>]
      else [])"
    by (simp only: writeCfg_def)
  from index writes show ?thesis by (rule conjI)
qed

text \<open>With the defaults the index service is created with the default policy and the write
  service is told \<^verbatim>\<open>Daily = false\<close>; in daily mode the index service is not created and the
  write service is created with \<^verbatim>\<open>Daily = true\<close>.\<close>

theorem index_service_unless_daily_witness:
  "reaches_index_stage default_flags env_ok \<and> \<not> indexDaily default_flags \<and>
   index_calls (trace (main default_flags env_ok)) =
     [\<lparr> IndexConfig.Alias = ''prom-metrics'', IndexConfig.MaxAge = ''7d'',
        IndexConfig.MaxDocs = 1000000, IndexConfig.MaxSize = '''' \<rparr>] \<and>
   map Daily (write_calls (trace (main default_flags env_ok))) = [False] \<and>
   reaches_index_stage daily_flags env_ok \<and> indexDaily daily_flags \<and>
   index_calls (trace (main daily_flags env_ok)) = [] \<and>
   write_calls (trace (main daily_flags env_ok)) =
     [\<lparr> WriteConfig.Alias = ''prom-metrics'',
        Daily = True,
        WriteConfig.MaxAge = 10,
        WriteConfig.MaxDocs = 1000,
        WriteConfig.MaxSize = 4096,
        Workers = 1,
        Stats = True \<rparr>]"
proof -
  have r: "reaches_index_stage default_flags env_ok"
    using startup_ok_default by (simp add: startup_ok_def)
  have rd: "reaches_index_stage daily_flags env_ok"
    by (simp add: reaches_index_stage_def input_defs cfg_defs)
  have nd: "\<not> indexDaily default_flags" and d: "indexDaily daily_flags"
    by (simp_all add: input_defs)
  have ok: "newIndexService_result env_ok (indexCfg default_flags) = None"
    by (simp add: env_ok_def)
  from index_service_unless_daily [of default_flags env_ok] r nd ok
  have a: "index_calls (trace (main default_flags env_ok)) =
       [\<lparr> IndexConfig.Alias = indexAlias default_flags,
          IndexConfig.MaxAge = indexMaxAge default_flags,
          IndexConfig.MaxDocs = indexMaxDocs default_flags,
          IndexConfig.MaxSize = indexMaxSize default_flags \<rparr>] \<and>
     write_calls (trace (main default_flags env_ok)) =
       [\<lparr> WriteConfig.Alias = indexAlias default_flags,
          Daily = indexDaily default_flags,
          WriteConfig.MaxAge = batchMaxAge default_flags,
          WriteConfig.MaxDocs = batchMaxDocs default_flags,
          WriteConfig.MaxSize = batchMaxSize default_flags,
          Workers = workers default_flags,
          Stats = statsEnabled default_flags \<rparr>]"
    by simp
  from index_service_unless_daily [of daily_flags env_ok] rd d
  have b: "index_calls (trace (main daily_flags env_ok)) = [] \<and>
     write_calls (trace (main daily_flags env_ok)) =
       [\<lparr> WriteConfig.Alias = indexAlias daily_flags,
          Daily = indexDaily daily_flags,
          WriteConfig.MaxAge = batchMaxAge daily_flags,
          WriteConfig.MaxDocs = batchMaxDocs daily_flags,
          WriteConfig.MaxSize = batchMaxSize daily_flags,
          Workers = workers daily_flags,
          Stats = statsEnabled daily_flags \<rparr>]"
    by simp
  have a': "index_calls (trace (main default_flags env_ok)) =
       [\<lparr> IndexConfig.Alias = ''prom-metrics'', IndexConfig.MaxAge = ''7d'',
          IndexConfig.MaxDocs = 1000000, IndexConfig.MaxSize = '''' \<rparr>] \<and>
     map Daily (write_calls (trace (main default_flags env_ok))) = [False]"
    using a by (simp add: default_flags_def)
  have b': "write_calls (trace (main daily_flags env_ok)) =
     [\<lparr> WriteConfig.Alias = ''prom-metrics'',
        Daily = True,
        WriteConfig.MaxAge = 10,
        WriteConfig.MaxDocs = 1000,
        WriteConfig.MaxSize = 4096,
        Workers = 1,
        Stats = True \<rparr>]"
    using b by (simp add: daily_flags_def default_flags_def)
  from r nd a' rd d b b' show ?thesis by blast
qed




text \<open>
  C4. The read service is constructed, in every run that gets that far, with exactly the
  alias and the cap of \<^verbatim>\<open>es_search_max_docs\<close>; the store query made from a read request
  addresses that alias and carries that cap; a request that matches more documents than the
  cap (a count, so not negative) returns exactly as many as the cap, and no request returns
  more.
\<close>

theorem read_path_alias_and_cap:
  "read_calls (trace (main f env)) =
     (if reaches_index_stage f env \<and>
         (\<not> indexDaily f \<longrightarrow> newIndexService_result env (indexCfg f) = None)
      then [\<lparr> ReadConfig.Alias = indexAlias f, ReadConfig.MaxDocs = searchMaxDocs f \<rparr>]
      else []) \<and>
   sq_index (translate (readCfg f) q) = indexAlias f \<and>
   sq_size (translate (readCfg f) q) = searchMaxDocs f \<and>
   (0 \<le> searchMaxDocs f \<and>
    searchMaxDocs f < int (length (filter (matches q) (store (indexAlias f)))) \<longrightarrow>
      int (length (Read (readCfg f) store q)) = searchMaxDocs f) \<and>
   int (length (Read (readCfg f) store q)) \<le> max 0 (searchMaxDocs f)"
proof -
  have calls: "read_calls (trace (main f env)) =
     (if reaches_index_stage f env \<and>
         (\<not> indexDaily f \<longrightarrow> newIndexService_result env (indexCfg f) = None)
      then [\<lparr> ReadConfig.Alias = indexAlias f, ReadConfig.MaxDocs = searchMaxDocs f \<rparr>]
      else [])"
    using read_calls_main [of f env] by (simp only: readCfg_def)
  have scoped: "sq_index (translate (readCfg f) q) = indexAlias f"
    and capped: "sq_size (translate (readCfg f) q) = searchMaxDocs f"
    by (simp_all add: readCfg_def translate_def)
  have exact: "0 \<le> searchMaxDocs f \<and>
    searchMaxDocs f < int (length (filter (matches q) (store (indexAlias f)))) \<longrightarrow>
      int (length (Read (readCfg f) store q)) = searchMaxDocs f"
    using read_cap [of "readCfg f" q store] by (simp add: readCfg_def)
  have bound: "int (length (Read (readCfg f) store q)) \<le> max 0 (searchMaxDocs f)"
    using read_at_most [of "readCfg f" store q] by (simp add: readCfg_def)
  from calls scoped capped exact bound show ?thesis by blast
qed

text \<open>With a cap of two and three matching samples behind the alias, two are returned.\<close>

theorem read_path_alias_and_cap_witness:
  "0 \<le> searchMaxDocs small_cap_flags \<and>
   searchMaxDocs small_cap_flags <
     int (length (filter (matches query0) (store0 (indexAlias small_cap_flags)))) \<and>
   int (length (Read (readCfg small_cap_flags) store0 query0)) = 2"
proof -
  have cap: "searchMaxDocs small_cap_flags = 2" and al: "indexAlias small_cap_flags = ''prom-metrics''"
    by (simp_all add: input_defs)
  have three: "length (filter (matches query0) (store0 ''prom-metrics'')) = 3"
    by (simp add: store0_def query0_def matches_def sample1_def sample2_def sample3_def)
  have h: "0 \<le> searchMaxDocs small_cap_flags \<and>
     searchMaxDocs small_cap_flags <
       int (length (filter (matches query0) (store0 (indexAlias small_cap_flags))))"
    by (simp add: cap al three)
  from read_path_alias_and_cap [of small_cap_flags env_ok query0 store0] h
  have "int (length (Read (readCfg small_cap_flags) store0 query0)) = searchMaxDocs small_cap_flags"
    by blast
  with h cap show ?thesis by simp
qed



text \<open>
  C6. Applying the index template is idempotent: once it has been applied without error,
  applying it again with the same alias, shard count and replica count, any number of times,
  returns no error and leaves the store as the first application left it.
\<close>

theorem ensure_index_template_idempotent:
  "fst (EnsureIndexTemplate c s) = None \<Longrightarrow>
     reapply n c (snd (EnsureIndexTemplate c s)) =
       (replicate n None, snd (EnsureIndexTemplate c s))"
proof (induction n)
  case 0
  show ?case by simp
next
  case (Suc n)
  from Suc.prems have again:
    "EnsureIndexTemplate c (snd (EnsureIndexTemplate c s)) = (None, snd (EnsureIndexTemplate c s))"
    by (rule EnsureIndexTemplate_again)
  from Suc.IH [OF Suc.prems] again show ?case
    by simp
qed

text \<open>The template of the default flags, applied to a store without templates and then
  three times more.\<close>

theorem ensure_index_template_idempotent_witness:
  "EnsureIndexTemplate (templateCfg default_flags) tstore0 = (None, tstore1) \<and>
   reapply 3 (templateCfg default_flags) tstore1 = ([None, None, None], tstore1)"
proof -
  have first: "EnsureIndexTemplate (templateCfg default_flags) tstore0 = (None, tstore1)"
    by (simp add: EnsureIndexTemplate_def templateCfg_def default_flags_def tstore0_def tstore1_def)
  then have h: "fst (EnsureIndexTemplate (templateCfg default_flags) tstore0) = None"
    by simp
  have "replicate 3 x = [x, x, x]" for x :: "error option"
    by (simp add: numeral_eq_Suc)
  with ensure_index_template_idempotent [OF h, of 3] first show ?thesis
    by simp
qed

text \<open>
  C7. Every option of the configuration surface is a flag and reaches the component it
  governs. In a start-up that succeeds the constructions are exactly these, in this order: the
  store client with the URL and the sniffing toggle; the template with the alias and the shard
  and replica counts; the index service with the alias and the rollover age, count and size,
  present exactly when the daily toggle is off; the read service with the alias and the result
  cap; the write service with the alias, the daily toggle, the batch age, count and size, the
  worker count and the statistics toggle.
\<close>

theorem options_routed_to_components:
  "startup_ok f env \<Longrightarrow>
     filter is_construction (trace (main f env)) =
       [CallNewClient \<lparr> SetURL = url f, SetScheme = ''https'',
                         SetHttpClient = awsClient env, SetSniff = sniffEnabled f \<rparr>,
        CallEnsureIndexTemplate \<lparr> IndexTemplateConfig.Alias = indexAlias f,
                                   Shards = indexShards f, Replicas = indexReplicas f \<rparr>] @
       (if indexDaily f then []
        else [CallNewIndexService \<lparr> IndexConfig.Alias = indexAlias f,
                                     IndexConfig.MaxAge = indexMaxAge f,
                                     IndexConfig.MaxDocs = indexMaxDocs f,
                                     IndexConfig.MaxSize = indexMaxSize f \<rparr>]) @
       [CallNewReadService \<lparr> ReadConfig.Alias = indexAlias f,
                              ReadConfig.MaxDocs = searchMaxDocs f \<rparr>,
        CallNewWriteService \<lparr> WriteConfig.Alias = indexAlias f,
                               Daily = indexDaily f,
                               WriteConfig.MaxAge = batchMaxAge f,
                               WriteConfig.MaxDocs = batchMaxDocs f,
                               WriteConfig.MaxSize = batchMaxSize f,
                               Workers = workers f,
                               Stats = statsEnabled f \<rparr>]"
  by (simp add: main_trace_ok cfg_defs split: serve_outcome.splits)

theorem options_routed_to_components_witness:
  "startup_ok default_flags env_ok \<and>
   filter is_construction (trace (main default_flags env_ok)) =
     [CallNewClient \<lparr> SetURL = ''http://localhost:9200'', SetScheme = ''https'',
                       SetHttpClient = Some (HttpClient 0), SetSniff = False \<rparr>,
      CallEnsureIndexTemplate \<lparr> IndexTemplateConfig.Alias = ''prom-metrics'',
                                 Shards = 5, Replicas = 1 \<rparr>,
      CallNewIndexService \<lparr> IndexConfig.Alias = ''prom-metrics'',
                             IndexConfig.MaxAge = ''7d'',
                             IndexConfig.MaxDocs = 1000000,
                             IndexConfig.MaxSize = '''' \<rparr>,
      CallNewReadService \<lparr> ReadConfig.Alias = ''prom-metrics'', ReadConfig.MaxDocs = 1000 \<rparr>,
      CallNewWriteService \<lparr> WriteConfig.Alias = ''prom-metrics'',
                             Daily = False,
                             WriteConfig.MaxAge = 10,
                             WriteConfig.MaxDocs = 1000,
                             WriteConfig.MaxSize = 4096,
                             Workers = 1,
                             Stats = True \<rparr>]"
proof -
  have aws: "awsClient env_ok = Some (HttpClient 0)"
    by (simp add: awsClient_def env_ok_def)
  from options_routed_to_components [OF startup_ok_default] aws
  show ?thesis
    using startup_ok_default by (simp add: default_flags_def)
qed

text \<open>
  C8. The error returned by \<^verbatim>\<open>aws_signing_client.New\<close> is never inspected: a run in which the
  creation of the signing client fails is, event for event, the run in which it returned the
  same client and no error. Nothing is logged about it, and with a URL given the start-up goes
  on to \<^verbatim>\<open>elastic.NewClient\<close> with whatever client was returned.
\<close>

theorem signing_client_error_ignored:
  "main f (env\<lparr> aws_signing_client_New := (\<lambda>service region. (c, Some e)) \<rparr>) =
   main f (env\<lparr> aws_signing_client_New := (\<lambda>service region. (c, None)) \<rparr>) \<and>
   (url f \<noteq> '''' \<longrightarrow>
      client_calls (trace (main f (env\<lparr> aws_signing_client_New :=
                                           (\<lambda>service region. (c, Some e)) \<rparr>))) =
        [\<lparr> SetURL = url f, SetScheme = ''https'', SetHttpClient = c, SetSniff = sniffEnabled f \<rparr>])"
proof -
  have same: "main f (env\<lparr> aws_signing_client_New := (\<lambda>service region. (c, Some e)) \<rparr>) =
      main f (env\<lparr> aws_signing_client_New := (\<lambda>service region. (c, None)) \<rparr>)"
    by (rule signing_error_unused)
  have "awsClient (env\<lparr> aws_signing_client_New := (\<lambda>service region. (c, Some e)) \<rparr>) = c"
    by (simp add: awsClient_def)
  then have "url f \<noteq> [] \<longrightarrow>
      client_calls (trace (main f (env\<lparr> aws_signing_client_New :=
                                           (\<lambda>service region. (c, Some e)) \<rparr>))) =
        [\<lparr> SetURL = url f, SetScheme = ''https'', SetHttpClient = c, SetSniff = sniffEnabled f \<rparr>]"
    by (simp add: client_calls_main clientOpts_def)
  with same show ?thesis by blast
qed

text \<open>With no region configured the signing client is not created; the start-up goes on
  with no client and, the store answering, reaches the write endpoint.\<close>

theorem signing_client_error_ignored_witness:
  "url default_flags \<noteq> '''' \<and>
   client_calls (trace (main default_flags env_no_region)) =
     [\<lparr> SetURL = ''http://localhost:9200'', SetScheme = ''https'',
        SetHttpClient = None, SetSniff = False \<rparr>] \<and>
   GracefulListenAndServe '':8000'' \<in> set (trace (main default_flags env_no_region))"
proof -
  have u: "url default_flags \<noteq> ''''"
    by (simp add: default_flags_def)
  have e: "env_no_region =
      (env_ok\<lparr> AWS_REGION := '''' \<rparr>)\<lparr> aws_signing_client_New :=
         (\<lambda>service region. (None, Some ''missing region'')) \<rparr>"
    by (simp add: env_no_region_def)
  from signing_client_error_ignored
         [where f = default_flags and env = "env_ok\<lparr> AWS_REGION := '''' \<rparr>"
            and c = None and e = "''missing region''"] u
  have "client_calls (trace (main default_flags env_no_region)) =
     [\<lparr> SetURL = url default_flags, SetScheme = ''https'',
        SetHttpClient = None, SetSniff = sniffEnabled default_flags \<rparr>]"
    unfolding e by blast
  then have calls: "client_calls (trace (main default_flags env_no_region)) =
     [\<lparr> SetURL = ''http://localhost:9200'', SetScheme = ''https'',
        SetHttpClient = None, SetSniff = False \<rparr>]"
    by (simp add: default_flags_def)
  have "startup_ok default_flags env_no_region"
    by (simp add: startup_ok_def reaches_index_stage_def input_defs cfg_defs)
  then have "GracefulListenAndServe '':8000'' \<in> set (trace (main default_flags env_no_region))"
    by (simp add: listen_iff_startup_ok)
  with u calls show ?thesis by blast
qed




text \<open>
  C10. When \<^verbatim>\<open>es_url\<close> is empty the process logs its start-up line, then the fatal
  \<^verbatim>\<open>missing url\<close>, and exits: nothing else happens, so no signing client, no store
  connection, no template and no service is created.
\<close>

theorem missing_url_aborts:
  "url f = '''' \<Longrightarrow>
     main f env =
       \<lparr> trace = [LogInfo (''Starting commit: '' @ Commit env @ '', build: '' @ Build env),
                  LogFatal ''missing url'' None],
         exit = Exited,
         final_pipeline = None \<rparr>"
  by (simp add: main_def fatal_def)

theorem missing_url_aborts_witness:
  "url no_url_flags = '''' \<and>
   main no_url_flags env_ok =
     \<lparr> trace = [LogInfo ''Starting commit: abc, build: 1'', LogFatal ''missing url'' None],
       exit = Exited,
       final_pipeline = None \<rparr>"
proof -
  have h: "url no_url_flags = ''''"
    by (simp add: no_url_flags_def)
  from missing_url_aborts [OF h, of env_ok] h show ?thesis
    by (simp add: env_ok_def)
qed

end
